theory Spec2Isabelle
  imports Main
begin

section \<open>The self-collecting wrapper of \<^verbatim>\<open>prometheus/collector.go\<close>\<close>

text \<open>
  The file declares the interface \<^verbatim>\<open>Collector\<close> (\<^verbatim>\<open>Describe\<close>, \<^verbatim>\<open>Collect\<close>) and one
  implementation of it, the struct \<^verbatim>\<open>SelfCollector\<close> with its methods \<^verbatim>\<open>Init\<close>,
  \<^verbatim>\<open>Describe\<close> and \<^verbatim>\<open>Collect\<close>. The three methods are modelled as functions on an
  explicit program state: each takes the state and returns how the call ended together
  with the state it left behind.
\<close>

subsection \<open>How a call ends\<close>

text \<open>
  A Go call returns, panics, or never comes back (a send that blocks forever, a callee
  that loops). \<open>Hangs\<close> stands for the last case, so that not returning is a value of
  the model and not a gap in it.
\<close>

datatype 'a outcome = Returns 'a | Panics | Hangs

subsection \<open>Data\<close>

text \<open>
  A Go slice is \<^verbatim>\<open>nil\<close> or has elements; the zero value of a slice field is
  \<^verbatim>\<open>nil\<close>, and the literal \<^verbatim>\<open>[]*Desc{x}\<close> is the one-element slice \<open>Slice [x]\<close>.
\<close>

datatype 'a slice = NilSlice | Slice "'a list"

fun elems :: "'a slice \<Rightarrow> 'a list" where
  "elems NilSlice = []"
| "elems (Slice xs) = xs"

text \<open>
  A value of the interface type \<^verbatim>\<open>Metric\<close> is \<^verbatim>\<open>nil\<close> (\<open>None\<close>) or refers to a
  metric object (\<open>Some m\<close>). The type \<open>'m\<close> is the type of metric objects and \<open>'d\<close>
  the type of \<^verbatim>\<open>*Desc\<close> pointer values (a \<^verbatim>\<open>nil\<close> pointer is one of them); both
  are declared outside this file, so they stay parameters.
\<close>

type_synonym 'm Metric = "'m option"

text \<open>
  \<^verbatim>\<open>type SelfCollector struct { self Metric; descs []*Desc }\<close>
\<close>

record ('m, 'd) SelfCollector =
  self :: "'m Metric"
  descs :: "'d slice"

text \<open>The zero value of the struct: what a wrapper holds before any call of \<^verbatim>\<open>Init\<close>.\<close>

definition SelfCollector_zero :: "('m, 'd) SelfCollector" where
  "SelfCollector_zero = \<lparr>self = None, descs = NilSlice\<rparr>"

text \<open>
  A channel, as far as a sender sees it. \<open>is_closed\<close>: the channel has been closed.
  \<open>room\<close>: how many further sends will be taken off the sender's hands (free buffer
  slots, and receives that the reader is going to perform). \<open>sent\<close>: the values handed
  over so far, oldest first. A channel value of Go is a reference; \<open>None\<close> is the
  \<^verbatim>\<open>nil\<close> channel and \<open>Some a\<close> the channel stored at address \<open>a\<close>.
\<close>

record 'a chan =
  is_closed :: bool
  room :: nat
  sent :: "'a list"

type_synonym chan_ref = "nat option"

text \<open>
  The program state. \<open>wrapper\<close> is the struct the receiver \<^verbatim>\<open>c *SelfCollector\<close>
  points to. \<open>Desc_method s m\<close> is what a call \<^verbatim>\<open>m.Desc()\<close> does in state \<open>s\<close>: the
  method belongs to the \<^verbatim>\<open>Metric\<close> interface, which is declared elsewhere, so its
  behaviour is a parameter kept in the state (it may differ from one state to the next).
  The call is taken to hand back a pointer, panic or hang, and not to write the wrapper's
  two fields. \<open>Desc_calls\<close> records, in order, the metric objects whose \<^verbatim>\<open>Desc\<close> method
  has been called. \<open>chans\<close> is the store of channels. The model is sequential: one
  call runs at a time, and what other goroutines do between two calls shows only as a
  different state for the second call.
\<close>

record ('m, 'd) state =
  wrapper :: "('m, 'd) SelfCollector"
  Desc_method :: "'m \<Rightarrow> 'd outcome"
  Desc_calls :: "'m list"
  chans :: "nat \<Rightarrow> 'm Metric chan"

subsection \<open>The two primitives the methods use\<close>

text \<open>
  \<^verbatim>\<open>v.Desc()\<close> on an interface value \<open>v\<close>: a method call on the \<^verbatim>\<open>nil\<close> interface
  panics before any method runs; otherwise the call is recorded and ends as the metric's
  method ends.
\<close>

definition call_Desc :: "'m Metric \<Rightarrow> ('m, 'd) state \<Rightarrow> 'd outcome \<times> ('m, 'd) state" where
  "call_Desc v s =
     (case v of
        None \<Rightarrow> (Panics, s)
      | Some m \<Rightarrow> (Desc_method s m, s\<lparr>Desc_calls := Desc_calls s @ [m]\<rparr>))"

text \<open>
  \<^verbatim>\<open>ch <- v\<close>: a send on the \<^verbatim>\<open>nil\<close> channel blocks forever, a send on a closed
  channel panics, a send nobody takes blocks, and any other send hands \<open>v\<close> over and
  returns.
\<close>

definition chan_send :: "chan_ref \<Rightarrow> 'm Metric \<Rightarrow> ('m, 'd) state \<Rightarrow> unit outcome \<times> ('m, 'd) state" where
  "chan_send ch v s =
     (case ch of
        None \<Rightarrow> (Hangs, s)
      | Some a \<Rightarrow>
          if is_closed (chans s a) then (Panics, s)
          else if room (chans s a) = 0 then (Hangs, s)
          else (Returns (),
                s\<lparr>chans := (chans s)(a := (chans s a)\<lparr>room := room (chans s a) - 1,
                                                         sent := sent (chans s a) @ [v]\<rparr>)\<rparr>))"

subsection \<open>The methods of \<^verbatim>\<open>SelfCollector\<close>\<close>

text \<open>
  \<^verbatim>\<open>func (c *SelfCollector) Init(self Metric) {
      c.self = self
      c.descs = []*Desc{self.Desc()}
  }\<close>
  The first assignment is done before \<^verbatim>\<open>self.Desc()\<close> is called, so it stays when the
  call panics; the second is done only when the call has returned.
\<close>

definition Init :: "'m Metric \<Rightarrow> ('m, 'd) state \<Rightarrow> unit outcome \<times> ('m, 'd) state" where
  "Init self_arg s =
     (let s1 = s\<lparr>wrapper := (wrapper s)\<lparr>self := self_arg\<rparr>\<rparr> in
      case call_Desc self_arg s1 of
        (Returns d, s2) \<Rightarrow> (Returns (), s2\<lparr>wrapper := (wrapper s2)\<lparr>descs := Slice [d]\<rparr>\<rparr>)
      | (Panics, s2) \<Rightarrow> (Panics, s2)
      | (Hangs, s2) \<Rightarrow> (Hangs, s2))"

text \<open>
  \<^verbatim>\<open>func (c *SelfCollector) Describe() []*Desc { return c.descs }\<close>
\<close>

definition Describe :: "('m, 'd) state \<Rightarrow> 'd slice outcome \<times> ('m, 'd) state" where
  "Describe s = (Returns (descs (wrapper s)), s)"

text \<open>
  \<^verbatim>\<open>func (c *SelfCollector) Collect(ch chan<- Metric) { ch <- c.self }\<close>
  (named \<open>Collect'\<close>, since \<open>Collect\<close> is the set comprehension of HOL).
\<close>

definition Collect' :: "chan_ref \<Rightarrow> ('m, 'd) state \<Rightarrow> unit outcome \<times> ('m, 'd) state" where
  "Collect' ch s = chan_send ch (self (wrapper s)) s"

subsection \<open>Notions the statements use\<close>

text \<open>The channel takes a send: it is not \<^verbatim>\<open>nil\<close>, not closed, and has room.\<close>

definition accepts :: "chan_ref \<Rightarrow> ('m, 'd) state \<Rightarrow> bool" where
  "accepts ch s =
     (case ch of
        None \<Rightarrow> False
      | Some a \<Rightarrow> \<not> is_closed (chans s a) \<and> 0 < room (chans s a))"

text \<open>What was handed to the channel at address \<open>a\<close> between state \<open>s\<close> and state \<open>s'\<close>.\<close>

definition emitted_on :: "nat \<Rightarrow> ('m, 'd) state \<Rightarrow> ('m, 'd) state \<Rightarrow> 'm Metric list" where
  "emitted_on a s s' = drop (length (sent (chans s a))) (sent (chans s' a))"

text \<open>The descriptors \<^verbatim>\<open>Describe\<close> returns in state \<open>s\<close>, as a set.\<close>

definition described :: "('m, 'd) state \<Rightarrow> 'd set" where
  "described s = (case fst (Describe s) of Returns ds \<Rightarrow> set (elems ds) | Panics \<Rightarrow> {} | Hangs \<Rightarrow> {})"

subsection \<open>States to run the methods on\<close>

text \<open>
  A concrete state: metric objects and descriptor pointers are numbers, the metric
  \<open>m\<close> has the descriptor \<open>m + 100\<close>, no wrapper field is set, and every channel is empty,
  closed or open as \<open>cl\<close> says, with room for \<open>r\<close> sends.
\<close>

definition fresh_state :: "bool \<Rightarrow> nat \<Rightarrow> (nat, nat) state" where
  "fresh_state cl r =
     \<lparr>wrapper = SelfCollector_zero,
      Desc_method = (\<lambda>m. Returns (m + 100)),
      Desc_calls = [],
      chans = (\<lambda>a. \<lparr>is_closed = cl, room = r, sent = []\<rparr>)\<rparr>"

section \<open>Properties\<close>

subsection \<open>When \<^verbatim>\<open>Init\<close> returns\<close>

lemma Init_Some:
  "Init (Some m) s =
     (case Desc_method s m of
        Returns d \<Rightarrow>
          (Returns (), s\<lparr>wrapper := \<lparr>self = Some m, descs = Slice [d]\<rparr>,
                         Desc_calls := Desc_calls s @ [m]\<rparr>)
      | Panics \<Rightarrow>
          (Panics, s\<lparr>wrapper := (wrapper s)\<lparr>self := Some m\<rparr>, Desc_calls := Desc_calls s @ [m]\<rparr>)
      | Hangs \<Rightarrow>
          (Hangs, s\<lparr>wrapper := (wrapper s)\<lparr>self := Some m\<rparr>, Desc_calls := Desc_calls s @ [m]\<rparr>))"
  by (simp add: Init_def call_Desc_def split: outcome.splits)

lemma Init_None: "Init None s = (Panics, s\<lparr>wrapper := (wrapper s)\<lparr>self := None\<rparr>\<rparr>)"
  by (simp add: Init_def call_Desc_def)

text \<open>
  \<^verbatim>\<open>Init\<close> returns exactly when its argument is a metric object whose \<^verbatim>\<open>Desc\<close> method
  returns.
\<close>

lemma Init_Returns_iff:
  "fst (Init v s) = Returns () \<longleftrightarrow> (\<exists>m d. v = Some m \<and> Desc_method s m = Returns d)"
proof (cases v)
  case None
  then show ?thesis by (simp add: Init_None)
next
  case (Some m)
  then show ?thesis by (cases "Desc_method s m") (simp_all add: Init_Some)
qed

text \<open>
  C1. For every metric \<open>m\<close> whose \<^verbatim>\<open>Desc\<close> method returns the descriptor \<open>d\<close>,
  \<^verbatim>\<open>Init\<close> with \<open>m\<close> returns, and \<^verbatim>\<open>Describe\<close> on the wrapper it leaves returns exactly
  the one-element sequence \<open>[d]\<close>, that is \<^verbatim>\<open>[M.Desc()]\<close>.
\<close>

theorem Describe_after_Init:
  assumes "Desc_method s m = Returns d"
  shows "fst (Init (Some m) s) = Returns () \<and>
         fst (Describe (snd (Init (Some m) s))) = Returns (Slice [d])"
  using assms by (simp add: Init_Some Describe_def)

theorem Describe_after_Init_witness:
  "Desc_method (fresh_state False 1) 7 = Returns 107 \<and>
   fst (Init (Some 7) (fresh_state False 1)) = Returns () \<and>
   fst (Describe (snd (Init (Some 7) (fresh_state False 1)))) = Returns (Slice [107])"
proof -
  have h: "Desc_method (fresh_state False 1) 7 = Returns 107"
    by (simp add: fresh_state_def)
  show ?thesis using h Describe_after_Init [OF h] by simp
qed

subsection \<open>What \<^verbatim>\<open>Collect\<close> does to the state\<close>

lemma Collect_accepted:
  assumes "accepts (Some a) s"
  shows "Collect' (Some a) s =
           (Returns (),
            s\<lparr>chans := (chans s)(a := (chans s a)\<lparr>room := room (chans s a) - 1,
                                                    sent := sent (chans s a) @ [self (wrapper s)]\<rparr>)\<rparr>)"
  using assms by (simp add: Collect'_def chan_send_def accepts_def)

lemma Collect_refused:
  assumes "\<not> accepts ch s"
  shows "snd (Collect' ch s) = s \<and> fst (Collect' ch s) \<noteq> Returns ()"
  using assms by (cases ch) (auto simp: Collect'_def chan_send_def accepts_def)

lemma emitted_on_same [simp]: "emitted_on a s s = []"
  by (simp add: emitted_on_def)

lemma emitted_on_Collect_accepted:
  assumes "accepts (Some a) s"
  shows "emitted_on b s (snd (Collect' (Some a) s)) = (if b = a then [self (wrapper s)] else [])"
  using assms by (simp add: Collect_accepted emitted_on_def)

lemma emitted_on_Collect:
  "emitted_on b s (snd (Collect' ch s)) = (if accepts ch s \<and> ch = Some b then [self (wrapper s)] else [])"
proof (cases "accepts ch s")
  case True
  then obtain a where "ch = Some a" by (cases ch) (simp_all add: accepts_def)
  with True show ?thesis by (auto simp: emitted_on_Collect_accepted)
next
  case False
  then show ?thesis by (simp add: Collect_refused)
qed

text \<open>
  C2, as stated, fails: metric 7 is wrapped, \<^verbatim>\<open>Init\<close> returns, and \<^verbatim>\<open>Collect\<close> on a
  closed channel panics at the send, having emitted nothing.
\<close>

theorem Collect_closed_channel_counterexample:
  "fst (Init (Some 7) (fresh_state True 1)) = Returns () \<and>
   fst (Collect' (Some 0) (snd (Init (Some 7) (fresh_state True 1)))) = Panics \<and>
   emitted_on 0 (snd (Init (Some 7) (fresh_state True 1)))
     (snd (Collect' (Some 0) (snd (Init (Some 7) (fresh_state True 1))))) = []"
  by (simp add: fresh_state_def Init_Some Collect'_def chan_send_def emitted_on_def)

text \<open>
  C2, amended. For every metric \<open>m\<close> whose \<^verbatim>\<open>Desc\<close> method returns, once \<^verbatim>\<open>Init\<close> has
  wrapped \<open>m\<close>, \<^verbatim>\<open>Collect\<close> on a channel that accepts the send returns, has handed that
  channel exactly one value, the reference to \<open>m\<close> itself, and has handed no other
  channel anything.
\<close>

theorem Collect_after_Init:
  fixes s :: "('m, 'd) state" and m :: 'm
  defines "s1 \<equiv> snd (Init (Some m) s)"
  assumes "Desc_method s m = Returns d" and "accepts (Some a) s1"
  shows "fst (Collect' (Some a) s1) = Returns () \<and>
         emitted_on a s1 (snd (Collect' (Some a) s1)) = [Some m] \<and>
         (\<forall>b. b \<noteq> a \<longrightarrow> emitted_on b s1 (snd (Collect' (Some a) s1)) = [])"
proof -
  have "self (wrapper s1) = Some m"
    using assms(2) by (simp add: s1_def Init_Some)
  with assms(3) show ?thesis
    by (simp add: emitted_on_Collect_accepted) (simp add: Collect_accepted)
qed

theorem Collect_after_Init_witness:
  "Desc_method (fresh_state False 1) 7 = Returns 107 \<and>
   accepts (Some 0) (snd (Init (Some 7) (fresh_state False 1))) \<and>
   fst (Collect' (Some 0) (snd (Init (Some 7) (fresh_state False 1)))) = Returns () \<and>
   emitted_on 0 (snd (Init (Some 7) (fresh_state False 1)))
     (snd (Collect' (Some 0) (snd (Init (Some 7) (fresh_state False 1))))) = [Some 7] \<and>
   emitted_on 1 (snd (Init (Some 7) (fresh_state False 1)))
     (snd (Collect' (Some 0) (snd (Init (Some 7) (fresh_state False 1))))) = []"
proof -
  have h: "Desc_method (fresh_state False 1) 7 = Returns 107"
    by (simp add: fresh_state_def)
  have k: "accepts (Some 0) (snd (Init (Some 7) (fresh_state False 1)))"
    by (simp add: fresh_state_def Init_Some accepts_def)
  show ?thesis using h k Collect_after_Init [OF h k] by simp
qed

subsection \<open>\<^verbatim>\<open>Describe\<close> and \<^verbatim>\<open>Collect\<close> read the wrapper and never write it\<close>

lemma Describe_state [simp]: "snd (Describe s) = s"
  by (simp add: Describe_def)

lemma wrapper_Collect [simp]: "wrapper (snd (Collect' ch s)) = wrapper s"
  by (cases ch) (simp_all add: Collect'_def chan_send_def)

lemma Desc_method_Collect [simp]: "Desc_method (snd (Collect' ch s)) = Desc_method s"
  by (cases ch) (simp_all add: Collect'_def chan_send_def)

text \<open>
  C3. In any state, \<^verbatim>\<open>Describe\<close> called twice returns the same descriptors: called
  again at once, called again after a \<^verbatim>\<open>Collect\<close>, and called again in any state \<open>t\<close>
  in which the wrapper is what it was (everything else may have changed).
\<close>

theorem Describe_idempotent:
  "fst (Describe (snd (Describe s))) = fst (Describe s) \<and>
   fst (Describe (snd (Collect' ch (snd (Describe s))))) = fst (Describe s) \<and>
   fst (Describe (t\<lparr>wrapper := wrapper (snd (Describe s))\<rparr>)) = fst (Describe s)"
  by (simp add: Describe_def)

text \<open>
  C6. For every wrapper state, \<^verbatim>\<open>Describe\<close> and \<^verbatim>\<open>Collect\<close> (on any channel, however
  the send ends) leave the stored metric reference and the cached descriptor sequence as
  they were; so a wrapper that \<^verbatim>\<open>Init\<close> has made ready stays as \<^verbatim>\<open>Init\<close> left it.
\<close>

theorem Describe_Collect_keep_wrapper:
  "self (wrapper (snd (Describe s))) = self (wrapper s) \<and>
   descs (wrapper (snd (Describe s))) = descs (wrapper s) \<and>
   self (wrapper (snd (Collect' ch s))) = self (wrapper s) \<and>
   descs (wrapper (snd (Collect' ch s))) = descs (wrapper s)"
  by simp

text \<open>
  C7. \<^verbatim>\<open>Collect\<close> on a channel that accepts the send returns, and has performed exactly
  one handoff to that channel. This holds for every wrapper state, an initialized one
  included.
\<close>

theorem Collect_returns:
  assumes "accepts (Some a) s"
  shows "fst (Collect' (Some a) s) = Returns () \<and>
         length (emitted_on a s (snd (Collect' (Some a) s))) = 1"
  using assms by (simp add: emitted_on_Collect_accepted) (simp add: Collect_accepted)

theorem Collect_returns_witness:
  "accepts (Some 0) (snd (Init (Some 7) (fresh_state False 1))) \<and>
   fst (Collect' (Some 0) (snd (Init (Some 7) (fresh_state False 1)))) = Returns () \<and>
   length (emitted_on 0 (snd (Init (Some 7) (fresh_state False 1)))
     (snd (Collect' (Some 0) (snd (Init (Some 7) (fresh_state False 1)))))) = 1"
proof -
  have k: "accepts (Some 0) (snd (Init (Some 7) (fresh_state False 1)))"
    by (simp add: fresh_state_def Init_Some accepts_def)
  show ?thesis using k Collect_returns [OF k] by simp
qed

subsection \<open>What is collected has been described\<close>

lemma described_after_Init:
  assumes "Desc_method s m = Returns d"
  shows "described (snd (Init (Some m) s)) = {d}"
  using assms by (simp add: described_def Describe_def Init_Some)

lemma described_Collect [simp]: "described (snd (Collect' ch s)) = described s"
  by (simp add: described_def Describe_def)

text \<open>
  C4. Let \<^verbatim>\<open>Init\<close> wrap a metric \<open>m\<close> whose \<^verbatim>\<open>Desc\<close> method returns, and let \<^verbatim>\<open>Collect\<close>
  run next, on any channel. Every value \<open>v\<close> that \<^verbatim>\<open>Collect\<close> handed to any channel is a
  metric whose descriptor (what \<^verbatim>\<open>v.Desc()\<close> returns) is among the descriptors that
  \<^verbatim>\<open>Describe\<close> returns, asked before the collection or after it.
\<close>

theorem Collect_emits_described:
  fixes s :: "('m, 'd) state" and m :: 'm and ch :: chan_ref
  defines "s1 \<equiv> snd (Init (Some m) s)"
  defines "s2 \<equiv> snd (Collect' ch s1)"
  assumes "Desc_method s m = Returns d"
  shows "\<forall>a. \<forall>v \<in> set (emitted_on a s1 s2).
           \<exists>d'. fst (call_Desc v s2) = Returns d' \<and> d' \<in> described s1 \<and> d' \<in> described s2"
proof (intro allI ballI)
  fix a v
  assume v: "v \<in> set (emitted_on a s1 s2)"
  have s1: "self (wrapper s1) = Some m" "Desc_method s1 = Desc_method s"
    using assms(3) by (simp_all add: s1_def Init_Some)
  from v have "v = Some m"
    by (simp add: s2_def emitted_on_Collect s1 split: if_splits)
  moreover have "described s1 = {d}"
    using assms(3) by (simp add: s1_def described_after_Init)
  moreover have "Desc_method s2 m = Returns d"
    using assms(3) s1 by (simp add: s2_def)
  ultimately show "\<exists>d'. fst (call_Desc v s2) = Returns d' \<and> d' \<in> described s1 \<and> d' \<in> described s2"
    by (simp add: call_Desc_def s2_def)
qed

theorem Collect_emits_described_witness:
  "Desc_method (fresh_state False 1) 7 = Returns 107 \<and>
   emitted_on 0 (snd (Init (Some 7) (fresh_state False 1)))
     (snd (Collect' (Some 0) (snd (Init (Some 7) (fresh_state False 1))))) = [Some 7] \<and>
   (\<exists>d'. fst (call_Desc (Some 7) (snd (Collect' (Some 0) (snd (Init (Some 7) (fresh_state False 1))))))
            = Returns d' \<and>
          d' \<in> described (snd (Init (Some 7) (fresh_state False 1))) \<and>
          d' \<in> described (snd (Collect' (Some 0) (snd (Init (Some 7) (fresh_state False 1))))))"
proof -
  have h: "Desc_method (fresh_state False 1) 7 = Returns 107"
    by (simp add: fresh_state_def)
  have e: "emitted_on 0 (snd (Init (Some 7) (fresh_state False 1)))
     (snd (Collect' (Some 0) (snd (Init (Some 7) (fresh_state False 1))))) = [Some 7]"
    by (simp add: fresh_state_def Init_Some Collect'_def chan_send_def emitted_on_def)
  have "\<forall>v \<in> set (emitted_on 0 (snd (Init (Some 7) (fresh_state False 1)))
            (snd (Collect' (Some 0) (snd (Init (Some 7) (fresh_state False 1)))))).
          \<exists>d'. fst (call_Desc v (snd (Collect' (Some 0) (snd (Init (Some 7) (fresh_state False 1))))))
                 = Returns d' \<and>
               d' \<in> described (snd (Init (Some 7) (fresh_state False 1))) \<and>
               d' \<in> described (snd (Collect' (Some 0) (snd (Init (Some 7) (fresh_state False 1)))))"
    using Collect_emits_described [OF h, of "Some 0"] by (rule spec)
  with h e show ?thesis by simp
qed

subsection \<open>The descriptor is computed once, by \<^verbatim>\<open>Init\<close>\<close>

text \<open>
  C5. Let the \<^verbatim>\<open>Desc\<close> method of \<open>m\<close> return \<open>d\<close> when \<^verbatim>\<open>Init\<close> runs. Then \<^verbatim>\<open>Init\<close> calls
  that method exactly once and stores the one-element sequence \<open>[d]\<close>. In every later
  state \<open>u\<close> of the program in which the wrapper is as \<^verbatim>\<open>Init\<close> left it (\<open>t\<close> is
  arbitrary: the \<^verbatim>\<open>Desc\<close> method may by then return something else, or panic),
  \<^verbatim>\<open>Describe\<close> returns that stored sequence \<open>[d]\<close>, calls no \<^verbatim>\<open>Desc\<close> method, and changes
  nothing.
\<close>

theorem Init_caches_descriptors:
  fixes s t :: "('m, 'd) state" and m :: 'm
  defines "s1 \<equiv> snd (Init (Some m) s)"
  defines "u \<equiv> t\<lparr>wrapper := wrapper s1\<rparr>"
  assumes "Desc_method s m = Returns d"
  shows "Desc_calls s1 = Desc_calls s @ [m] \<and>
         descs (wrapper s1) = Slice [d] \<and>
         fst (Describe u) = Returns (Slice [d]) \<and>
         Desc_calls (snd (Describe u)) = Desc_calls u \<and>
         snd (Describe u) = u"
  using assms(3) by (simp add: s1_def u_def Init_Some Describe_def)

theorem Init_caches_descriptors_witness:
  "Desc_method (fresh_state False 1) 7 = Returns 107 \<and>
   Desc_calls (snd (Init (Some 7) (fresh_state False 1))) = [7] \<and>
   Desc_method ((fresh_state False 1)\<lparr>Desc_method := (\<lambda>m. Returns (m + 200))\<rparr>) 7 = Returns 207 \<and>
   fst (Describe ((fresh_state False 1)
          \<lparr>Desc_method := (\<lambda>m. Returns (m + 200)),
            wrapper := wrapper (snd (Init (Some 7) (fresh_state False 1)))\<rparr>))
     = Returns (Slice [107]) \<and>
   Desc_calls (snd (Describe ((fresh_state False 1)
          \<lparr>Desc_method := (\<lambda>m. Returns (m + 200)),
            wrapper := wrapper (snd (Init (Some 7) (fresh_state False 1)))\<rparr>))) = []"
proof -
  have h: "Desc_method (fresh_state False 1) 7 = Returns 107"
    by (simp add: fresh_state_def)
  have c: "Desc_calls (fresh_state False 1) = []"
    by (simp add: fresh_state_def)
  show ?thesis
    using h c
      Init_caches_descriptors [OF h,
        of "(fresh_state False 1)\<lparr>Desc_method := (\<lambda>m. Returns (m + 200))\<rparr>"]
    by simp
qed

subsection \<open>A wrapper that was never initialized\<close>

lemma Collect_Returns_iff: "fst (Collect' ch s) = Returns () \<longleftrightarrow> accepts ch s"
proof (cases "accepts ch s")
  case True
  then obtain a where "ch = Some a" by (cases ch) (simp_all add: accepts_def)
  with True show ?thesis by (simp add: Collect_accepted)
next
  case False
  then show ?thesis by (simp add: Collect_refused)
qed

text \<open>
  C9. Let the wrapper hold the zero value of its struct (\<^verbatim>\<open>Init\<close> was never called).
  \<^verbatim>\<open>Describe\<close> returns, with the \<^verbatim>\<open>nil\<close> slice, which has no element, and leaves the
  state alone. \<^verbatim>\<open>Collect\<close> is nothing but the send of the \<^verbatim>\<open>nil\<close> metric reference: it
  ends as that send ends, so it returns exactly when the channel accepts the send, and
  then it has handed the channel the single value \<^verbatim>\<open>nil\<close>. Neither method looks at whether
  the wrapper was initialized.
\<close>

theorem uninitialized_wrapper:
  fixes s :: "('m, 'd) state"
  defines "s0 \<equiv> s\<lparr>wrapper := SelfCollector_zero\<rparr>"
  shows "Describe s0 = (Returns NilSlice, s0) \<and>
         described s0 = {} \<and>
         Collect' ch s0 = chan_send ch None s0 \<and>
         (fst (Collect' ch s0) = Returns ()) = accepts ch s0 \<and>
         (accepts (Some a) s0 \<longrightarrow>
            fst (Collect' (Some a) s0) = Returns () \<and>
            emitted_on a s0 (snd (Collect' (Some a) s0)) = [None])"
proof -
  have z: "self (wrapper s0) = None" "descs (wrapper s0) = NilSlice"
    by (simp_all add: s0_def SelfCollector_zero_def)
  have "Describe s0 = (Returns NilSlice, s0)" and "described s0 = {}"
    by (simp_all add: described_def Describe_def z)
  moreover have "Collect' ch s0 = chan_send ch None s0"
    by (simp add: Collect'_def z)
  moreover have "(fst (Collect' ch s0) = Returns ()) = accepts ch s0"
    by (rule Collect_Returns_iff)
  moreover have "accepts (Some a) s0 \<longrightarrow>
            fst (Collect' (Some a) s0) = Returns () \<and>
            emitted_on a s0 (snd (Collect' (Some a) s0)) = [None]"
    by (simp add: emitted_on_Collect_accepted z) (simp add: Collect_accepted)
  ultimately show ?thesis by simp
qed

theorem uninitialized_wrapper_witness:
  "accepts (Some 0) (fresh_state False 1) \<and>
   fst (Describe (fresh_state False 1)) = Returns NilSlice \<and>
   fst (Collect' (Some 0) (fresh_state False 1)) = Returns () \<and>
   emitted_on 0 (fresh_state False 1) (snd (Collect' (Some 0) (fresh_state False 1))) = [None]"
proof -
  have w: "(fresh_state False 1)\<lparr>wrapper := SelfCollector_zero\<rparr> = fresh_state False 1"
    by (simp add: fresh_state_def)
  have k: "accepts (Some 0) (fresh_state False 1)"
    by (simp add: fresh_state_def accepts_def)
  note u = uninitialized_wrapper [of "fresh_state False 1" "Some 0" 0, unfolded w]
  from u have "Describe (fresh_state False 1) = (Returns NilSlice, fresh_state False 1)"
    by blast
  then have d: "fst (Describe (fresh_state False 1)) = Returns NilSlice"
    by simp
  from u k d show ?thesis by blast
qed

subsection \<open>\<^verbatim>\<open>Init\<close> called again\<close>

text \<open>
  C10. Let the wrapper be in any state (never initialized, or initialized with any
  metric), and let \<^verbatim>\<open>Init\<close> be called with a metric \<open>m'\<close> whose \<^verbatim>\<open>Desc\<close> method returns
  \<open>d'\<close>. The call ends, and leaves the whole program, exactly as the same call on a wrapper
  holding the zero value does: the stored reference is \<open>m'\<close> and the cached sequence is the
  one-element \<open>[d']\<close>, with nothing kept of what the wrapper held before.
\<close>

theorem Init_overwrites:
  assumes "Desc_method s m' = Returns d'"
  shows "Init (Some m') s = Init (Some m') (s\<lparr>wrapper := SelfCollector_zero\<rparr>) \<and>
         fst (Init (Some m') s) = Returns () \<and>
         wrapper (snd (Init (Some m') s)) = \<lparr>self = Some m', descs = Slice [d']\<rparr>"
  using assms by (simp add: Init_Some)

theorem Init_overwrites_witness:
  "Desc_method (snd (Init (Some 3) (fresh_state False 1))) 7 = Returns 107 \<and>
   wrapper (snd (Init (Some 3) (fresh_state False 1))) = \<lparr>self = Some 3, descs = Slice [103]\<rparr> \<and>
   fst (Init (Some 7) (snd (Init (Some 3) (fresh_state False 1)))) = Returns () \<and>
   wrapper (snd (Init (Some 7) (snd (Init (Some 3) (fresh_state False 1)))))
     = \<lparr>self = Some 7, descs = Slice [107]\<rparr> \<and>
   Init (Some 7) (snd (Init (Some 3) (fresh_state False 1)))
     = Init (Some 7) ((snd (Init (Some 3) (fresh_state False 1)))\<lparr>wrapper := SelfCollector_zero\<rparr>)"
proof -
  have p: "wrapper (snd (Init (Some 3) (fresh_state False 1))) = \<lparr>self = Some 3, descs = Slice [103]\<rparr>"
    by (simp add: fresh_state_def Init_Some)
  have h: "Desc_method (snd (Init (Some 3) (fresh_state False 1))) 7 = Returns 107"
    by (simp add: fresh_state_def Init_Some)
  show ?thesis using p h Init_overwrites [OF h] by blast
qed

end
